theory Spec2Isabelle
  imports Complex_Main
begin

section \<open>Data model (types.ts)\<close>

text \<open>
  A finite TypeScript \<^verbatim>\<open>number\<close> is modelled by a \<^typ>\<open>real\<close>: the arithmetic of the
  scoring code (one product, one sum, one difference, comparisons against constants) is
  read exactly, without the rounding of IEEE doubles. Every concrete evaluation below
  uses inputs on which double arithmetic gives the same value (in particular
  \<^verbatim>\<open>100 * 1.2\<close> rounds to \<^verbatim>\<open>120\<close>), and every general statement about scores is one that
  rounding preserves, or carries bounds under which the double operations are exact.
  Strings are character lists; the identifiers handled here are ASCII.
  An optional field (\<^verbatim>\<open>avatarUrl?\<close>, \<^verbatim>\<open>final_score?\<close>) is an \<^typ>\<open>'a option\<close>.
\<close>

text \<open>
  A number computed from a response body may be \<^verbatim>\<open>NaN\<close>: a property that is missing or not
  numeric reads as \<^verbatim>\<open>NaN\<close>, and every operation on \<^verbatim>\<open>NaN\<close> gives \<^verbatim>\<open>NaN\<close>, every
  comparison with it \<^verbatim>\<open>false\<close>.
\<close>

datatype js_number = Num real | NaN

fun js_add :: "js_number \<Rightarrow> js_number \<Rightarrow> js_number" where
  "js_add (Num a) (Num b) = Num (a + b)"
| "js_add _ _ = NaN"

fun js_mul :: "js_number \<Rightarrow> js_number \<Rightarrow> js_number" where
  "js_mul (Num a) (Num b) = Num (a * b)"
| "js_mul _ _ = NaN"

text \<open>\<^verbatim>\<open>x > c\<close>, \<^verbatim>\<open>Math.floor(x)\<close> and \<^verbatim>\<open>Math.max(x, y)\<close>.\<close>

fun js_gt :: "js_number \<Rightarrow> real \<Rightarrow> bool" where
  "js_gt (Num a) c = (a > c)"
| "js_gt NaN c = False"

fun js_floor :: "js_number \<Rightarrow> js_number" where
  "js_floor (Num a) = Num (of_int \<lfloor>a\<rfloor>)"
| "js_floor NaN = NaN"

fun js_max :: "js_number \<Rightarrow> js_number \<Rightarrow> js_number" where
  "js_max (Num a) (Num b) = Num (max a b)"
| "js_max _ _ = NaN"

record User =
  user_id :: string
  name :: string
  role :: string
  avatarUrl :: "string option"

record AnalysisSummary =
  difficulty_rationale :: string
  kudos_evidence :: "string list"
  penalty_evidence :: "string list"

record Variables =
  base_points :: real
  difficulty_factor :: real
  peer_kudos_count :: real
  blocker_penalty_total :: real

record SkillMetric =
  skill_name :: string
  skill_score :: real
  gap :: real

record ProjectContribution =
  project_name :: string
  impact_value :: string
  project_role :: string
  contribution_pct :: real

record WellnessMetrics =
  burnout_risk :: real
  async_efficiency :: real
  timezone_load_balance :: string
  last_break_taken :: string

record CareerGrowth =
  mentorship_score :: real
  learning_velocity :: real
  promotion_readiness :: real
  next_level_skills :: "string list"

record HistoryPoint =
  month :: string
  score :: js_number

record AdvancedMetrics =
  skills :: "SkillMetric list"
  projects :: "ProjectContribution list"
  wellness :: WellnessMetrics
  growth :: CareerGrowth
  innovation_score :: real
  tech_debt_reduction :: real
  customer_impact :: js_number
  attrition_risk_prediction :: string
  score_history :: "HistoryPoint list"

text \<open>
  \<^verbatim>\<open>ScoreResponse\<close> is what the scoring service sends. The body is untrusted JSON, so the
  value of its \<^verbatim>\<open>variables\<close> property is one of four kinds, told apart by what the code
  does with it:
  \<^item> \<open>VarsNullish\<close>: the property is missing or \<^verbatim>\<open>null\<close>; reading a property of it throws;
  \<^item> \<open>VarsFalsy\<close>: \<^verbatim>\<open>0\<close>, \<^verbatim>\<open>""\<close> or \<^verbatim>\<open>false\<close>; its properties read as \<^verbatim>\<open>undefined\<close>, and
    \<^verbatim>\<open>!variables\<close> is true;
  \<^item> \<open>VarsNaN\<close>: any other value one of whose four properties is missing or not numeric;
  \<^item> \<open>VarsObject v\<close>: a value whose four properties read as the numbers of \<open>v\<close>.
\<close>

datatype variables_json = VarsNullish | VarsFalsy | VarsNaN | VarsObject Variables

fun truthy :: "variables_json \<Rightarrow> bool" where
  "truthy VarsNullish = False"
| "truthy VarsFalsy = False"
| "truthy VarsNaN = True"
| "truthy (VarsObject v) = True"

text \<open>
  An arithmetic expression over the four properties, on a value of each kind: the
  expression itself when all four are numbers, \<^verbatim>\<open>NaN\<close> as soon as one operand is.
\<close>

fun js_score :: "(Variables \<Rightarrow> real) \<Rightarrow> variables_json \<Rightarrow> js_number" where
  "js_score f (VarsObject v) = Num (f v)"
| "js_score f _ = NaN"

text \<open>
  A JSON object body. Besides the three properties of the interface it may carry keys
  that collide with those of \<^verbatim>\<open>User\<close> (\<open>id_key\<close>, \<open>name_key\<close>, \<open>role_key\<close>,
  \<open>avatarUrl_key\<close>; \<open>None\<close> when the body has no such key) and any further keys
  (\<open>other_keys\<close>, each with the JSON text of its value): an object spread copies them all.
\<close>

record ScoreResponse =
  analysis_summary :: "AnalysisSummary option"
  variables :: variables_json
  final_score :: "real option"
  id_key :: "string option"
  name_key :: "string option"
  role_key :: "string option"
  avatarUrl_key :: "string option"
  other_keys :: "(string \<times> string) list"

text \<open>The value \<^verbatim>\<open>calculateScore\<close> resolves to: \<^verbatim>\<open>ScoreResponse & { advanced }\<close>.\<close>

record ScoreResponseAdvanced = ScoreResponse +
  advanced :: AdvancedMetrics

text \<open>
  \<^verbatim>\<open>FullUserPerformance extends User, ScoreResponse\<close>. The fields inherited from
  \<^verbatim>\<open>ScoreResponse\<close> carry the prefix \<open>perf_\<close> to keep them apart from the fields of the
  response record.
\<close>

record FullUserPerformance = User +
  perf_analysis_summary :: "AnalysisSummary option"
  perf_variables :: variables_json
  perf_final_score :: js_number
  perf_advanced :: "AdvancedMetrics option"
  perf_other_keys :: "(string \<times> string) list"

section \<open>Errors, strings and the outside world\<close>

text \<open>A JavaScript exception value: its \<^verbatim>\<open>name\<close> and its \<^verbatim>\<open>message\<close>.\<close>

datatype js_error = JsError (err_name: string) (err_message: string)

text \<open>\<^verbatim>\<open>String.prototype.split\<close> with a one-character separator.\<close>

fun split :: "char \<Rightarrow> string \<Rightarrow> string list" where
  "split sep [] = [[]]"
| "split sep (c # cs) =
     (if c = sep then [] # split sep cs
      else (case split sep cs of [] \<Rightarrow> [[c]] | p # ps \<Rightarrow> (c # p) # ps))"

text \<open>\<^verbatim>\<open>toUpperCase\<close> on ASCII text.\<close>

definition toUpperCase_char :: "char \<Rightarrow> char" where
  "toUpperCase_char c =
     (case map_of (zip ''abcdefghijklmnopqrstuvwxyz'' ''ABCDEFGHIJKLMNOPQRSTUVWXYZ'') c of
        None \<Rightarrow> c
      | Some u \<Rightarrow> u)"

definition toUpperCase :: "string \<Rightarrow> string" where
  "toUpperCase s = map toUpperCase_char s"

text \<open>\<^verbatim>\<open>s.charAt(0)\<close> is the empty string on an empty string; \<^verbatim>\<open>s.slice(1)\<close> drops one character.\<close>

definition charAt0 :: "string \<Rightarrow> string" where
  "charAt0 s = take 1 s"

definition slice1 :: "string \<Rightarrow> string" where
  "slice1 s = drop 1 s"

text \<open>\<^verbatim>\<open>s.includes(sub)\<close>: \<open>sub\<close> occurs in \<open>s\<close> as a contiguous block.\<close>

fun includes_str :: "string \<Rightarrow> string \<Rightarrow> bool" where
  "includes_str [] sub = (sub = [])"
| "includes_str (c # cs) sub = (take (length sub) (c # cs) = sub \<or> includes_str cs sub)"

text \<open>The decimal text of a number inside a template literal (HTTP status codes).\<close>

fun show_nat :: "nat \<Rightarrow> string" where
  "show_nat n =
     (if n < 10 then [''0123456789'' ! n]
      else show_nat (n div 10) @ [''0123456789'' ! (n mod 10)])"

declare show_nat.simps [simp del]

text \<open>
  An asynchronous computation never settles, is rejected with an exception, or is resolved
  with a value.
\<close>

datatype 'a promise = Pending | Rejected js_error | Resolved 'a

text \<open>
  What \<^verbatim>\<open>fetch\<close> can do for one URL: never settle, reject with an exception (no connection,
  CORS), or resolve to a response with a status and a body. Reading the body
  (\<^verbatim>\<open>response.text()\<close>, \<^verbatim>\<open>response.json()\<close>) may in turn never settle, fail, or deliver the
  text together with the outcome of parsing it as JSON: not JSON, a JSON value that is not
  an object (\<^verbatim>\<open>null\<close>, a number, a string, a boolean, an array: it has no \<^verbatim>\<open>variables\<close>
  property), or an object. The network is a function from the requested URL to that
  outcome.
\<close>

datatype response_json = InvalidJson | JsonNotObject | Json ScoreResponse

datatype body_outcome = BodyPending | BodyRejected js_error | Body string response_json

record Response =
  status :: nat
  body :: body_outcome

datatype fetch_outcome = FetchPending | FetchRejected js_error | Responded Response

type_synonym network = "string \<Rightarrow> fetch_outcome"

definition ok :: "Response \<Rightarrow> bool" where
  "ok response = (200 \<le> status response \<and> status response \<le> 299)"

text \<open>
  \<^verbatim>\<open>Math.random()\<close>: the draws of one call of \<^verbatim>\<open>generateHistory\<close>, in the order they are
  made, each in \<open>[0, 1)\<close>. The draw sequence is an input of the model.
\<close>

type_synonym random_draws = "nat \<Rightarrow> real"

section \<open>services/api.ts\<close>

definition setApiBaseUrl :: "string \<Rightarrow> string" where
  "setApiBaseUrl url = (if url \<noteq> [] \<and> last url = CHR ''/'' then butlast url else url)"

definition PROVIDED_USER_IDS :: "string list" where
  "PROVIDED_USER_IDS =
     [''alice-dev'', ''bob-backend'', ''charlie-frontend'', ''diana-ml'', ''ethan-arch'']"

definition months :: "string list" where
  "months = [''Jan'', ''Feb'', ''Mar'', ''Apr'', ''May'', ''Jun'']"

definition historyPoint :: "random_draws \<Rightarrow> js_number \<Rightarrow> nat \<times> string \<Rightarrow> HistoryPoint" where
  "historyPoint random baseScore im =
     \<lparr>month = snd im,
      score = js_max (Num 0)
                (js_add (js_add baseScore (Num (random (fst im) * 40 - 20)))
                   (Num (real (fst im) * 2)))\<rparr>"

definition generateHistory :: "random_draws \<Rightarrow> js_number \<Rightarrow> HistoryPoint list" where
  "generateHistory random baseScore = map (historyPoint random baseScore) (enumerate 0 months)"

definition generateAdvancedMetrics ::
  "random_draws \<Rightarrow> string \<Rightarrow> js_number \<Rightarrow> AdvancedMetrics" where
  "generateAdvancedMetrics random userId baseScore =
     (let isDev = (includes_str userId ''dev'' \<or> includes_str userId ''frontend''
                    \<or> includes_str userId ''backend'');
          isArch = includes_str userId ''arch'';
          isMl = includes_str userId ''ml''
      in \<lparr>skills =
             [\<lparr>skill_name = ''Architecture'', skill_score = (if isArch then 95 else 40),
                gap = (if isArch then 0 else - 20)\<rparr>,
              \<lparr>skill_name = ''Code Quality'', skill_score = (if isDev then 90 else 70), gap = 5\<rparr>,
              \<lparr>skill_name = ''DevOps'', skill_score = (if isDev then 60 else 30), gap = - 15\<rparr>,
              \<lparr>skill_name = ''Communication'',
                skill_score = (if js_gt baseScore 120 then 85 else 60), gap = 0\<rparr>,
              \<lparr>skill_name = ''Innovation'', skill_score = (if isMl then 95 else 50), gap = 0\<rparr>],
           projects =
             [\<lparr>project_name = ''Project Alpha'', impact_value = ''$2M'', project_role = ''Lead'',
                contribution_pct = 45\<rparr>,
              \<lparr>project_name = ''Legacy Migration'', impact_value = ''Efficiency'',
                project_role = ''Contributor'', contribution_pct = 20\<rparr>],
           wellness =
             \<lparr>burnout_risk = (if js_gt baseScore 150 then 85 else 30),
              async_efficiency = 8.5,
              timezone_load_balance = ''Optimal'',
              last_break_taken = ''2 hours ago''\<rparr>,
           growth =
             \<lparr>mentorship_score = (if isArch then 9.2 else 4.5),
              learning_velocity = 8.8,
              promotion_readiness = (if js_gt baseScore 130 then 90 else 60),
              next_level_skills = [''Strategic Planning'', ''Public Speaking'']\<rparr>,
           innovation_score = (if isMl then 92 else 65),
           tech_debt_reduction = (if isArch then 450 else 120),
           customer_impact = js_floor (js_mul baseScore (Num 10)),
           attrition_risk_prediction = (if js_gt baseScore 160 then ''High'' else ''Low''),
           score_history = generateHistory random baseScore\<rparr>)"

text \<open>
  The body of the \<^verbatim>\<open>map\<close> callback of \<^verbatim>\<open>fetchUsers\<close>. \<^verbatim>\<open>parts[0]\<close> of an empty array would be
  \<^verbatim>\<open>undefined\<close> and the call of \<^verbatim>\<open>charAt\<close> on it a TypeError; \<^verbatim>\<open>split\<close> never returns an empty
  array, and the model keeps the branch.
\<close>

definition toUser :: "string \<Rightarrow> js_error + User" where
  "toUser i =
     (case split (CHR ''-'') i of
        [] \<Rightarrow> Inl (JsError ''TypeError'' ''Cannot read properties of undefined'')
      | p0 # rest \<Rightarrow>
          Inr \<lparr>user_id = i,
               name = toUpperCase (charAt0 p0) @ slice1 p0,
               role = (case rest of [] \<Rightarrow> ''MEMBER'' | p1 # _ \<Rightarrow> toUpperCase p1),
               avatarUrl = None\<rparr>)"

fun mapM :: "('a \<Rightarrow> js_error + 'b) \<Rightarrow> 'a list \<Rightarrow> js_error + 'b list" where
  "mapM f [] = Inr []"
| "mapM f (x # xs) =
     (case f x of
        Inl e \<Rightarrow> Inl e
      | Inr y \<Rightarrow> (case mapM f xs of Inl e \<Rightarrow> Inl e | Inr ys \<Rightarrow> Inr (y # ys)))"

definition fetchUsers :: "js_error + User list" where
  "fetchUsers = mapM toUser PROVIDED_USER_IDS"

text \<open>The score computed locally in \<^verbatim>\<open>calculateScore\<close> to feed the generator.\<close>

definition calculatedScore :: "Variables \<Rightarrow> real" where
  "calculatedScore v =
     (base_points v * difficulty_factor v) + (peer_kudos_count v * 1.5)
       - blocker_penalty_total v"

text \<open>The URL requested for a member.\<close>

definition scoreUrl :: "string \<Rightarrow> string \<Rightarrow> string" where
  "scoreUrl API_BASE userId = API_BASE @ ''/calculate-score/'' @ userId"

text \<open>
  The \<^verbatim>\<open>try\<close> block of \<^verbatim>\<open>calculateScore\<close>. Reading \<^verbatim>\<open>data.variables.base_points\<close> throws a
  TypeError when the body is not an object or its \<^verbatim>\<open>variables\<close> is missing or \<^verbatim>\<open>null\<close>; on
  every other value the four reads succeed and the score is computed, as \<^verbatim>\<open>NaN\<close> unless
  all four are numbers. The result is the body with \<^verbatim>\<open>advanced\<close> added (a key \<^verbatim>\<open>advanced\<close>
  of the body is overwritten). The messages of errors raised by the engine are
  engine-specific, and nothing below depends on them.
\<close>

definition calculateScore_try ::
  "string \<Rightarrow> network \<Rightarrow> random_draws \<Rightarrow> string \<Rightarrow> ScoreResponseAdvanced promise" where
  "calculateScore_try API_BASE net random userId =
     (case net (scoreUrl API_BASE userId) of
        FetchPending \<Rightarrow> Pending
      | FetchRejected e \<Rightarrow> Rejected e
      | Responded response \<Rightarrow>
          if \<not> ok response then
            (case body response of
               BodyPending \<Rightarrow> Pending
             | BodyRejected e \<Rightarrow> Rejected e
             | Body errorText parsed \<Rightarrow>
                 Rejected (JsError ''Error''
                   (''POST /calculate-score/'' @ userId @ '' failed: ''
                      @ show_nat (status response) @ '' - '' @ errorText)))
          else
            (case body response of
               BodyPending \<Rightarrow> Pending
             | BodyRejected e \<Rightarrow> Rejected e
             | Body bodyText InvalidJson \<Rightarrow>
                 Rejected (JsError ''SyntaxError'' ''Unexpected token in JSON'')
             | Body bodyText JsonNotObject \<Rightarrow>
                 Rejected (JsError ''TypeError'' ''Cannot read properties of undefined'')
             | Body bodyText (Json data) \<Rightarrow>
                 (case variables data of
                    VarsNullish \<Rightarrow>
                      Rejected (JsError ''TypeError'' ''Cannot read properties of undefined'')
                  | vars \<Rightarrow>
                      Resolved
                        \<lparr>analysis_summary = analysis_summary data,
                         variables = variables data,
                         final_score = final_score data,
                         id_key = id_key data,
                         name_key = name_key data,
                         role_key = role_key data,
                         avatarUrl_key = avatarUrl_key data,
                         other_keys = other_keys data,
                         advanced =
                           generateAdvancedMetrics random userId
                             (js_score calculatedScore vars)\<rparr>)))"

text \<open>The \<^verbatim>\<open>catch\<close> block: a failed fetch is reworded, anything else is rethrown.\<close>

definition calculateScore_catch :: "string \<Rightarrow> js_error \<Rightarrow> js_error" where
  "calculateScore_catch API_BASE error =
     (if err_name error = ''TypeError'' \<and> err_message error = ''Failed to fetch'' then
        JsError ''Error''
          (''Network Error: Could not connect to '' @ API_BASE
             @ ''. Check CORS or if server is running.'')
      else error)"

definition calculateScore ::
  "string \<Rightarrow> network \<Rightarrow> random_draws \<Rightarrow> string \<Rightarrow> ScoreResponseAdvanced promise" where
  "calculateScore API_BASE net random userId =
     (case calculateScore_try API_BASE net random userId of
        Pending \<Rightarrow> Pending
      | Rejected error \<Rightarrow> Rejected (calculateScore_catch API_BASE error)
      | Resolved result \<Rightarrow> Resolved result)"

section \<open>components/UserDetail.tsx and components/DashboardOverview.tsx\<close>

text \<open>The three terms of the "Basic Formula" shown in the score breakdown.\<close>

definition difficultyScore :: "Variables \<Rightarrow> real" where
  "difficultyScore v = base_points v * difficulty_factor v"



text \<open>
  The burnout figure the dashboard reads off a performance: \<^verbatim>\<open>advanced?.wellness.burnout_risk || 0\<close>,
  and the count of members it flags (strictly above 70).
\<close>

definition shownBurnoutRisk :: "FullUserPerformance \<Rightarrow> real" where
  "shownBurnoutRisk p =
     (case perf_advanced p of None \<Rightarrow> 0 | Some a \<Rightarrow> burnout_risk (wellness a))"

definition highBurnoutRisk :: "FullUserPerformance list \<Rightarrow> nat" where
  "highBurnoutRisk performances = length (filter (\<lambda>p. shownBurnoutRisk p > 70) performances)"

section \<open>App.tsx: loadData\<close>

record AppState =
  users :: "User list"
  performances :: "FullUserPerformance list"
  loading :: bool
  error :: "string option"

text \<open>The score recomputed in \<^verbatim>\<open>loadData\<close> for \<^verbatim>\<open>final_score\<close>.\<close>

definition calculatedScore_loadData :: "Variables \<Rightarrow> real" where
  "calculatedScore_loadData v =
     (base_points v * difficulty_factor v) + (peer_kudos_count v * 1.5)
       - blocker_penalty_total v"

text \<open>
  The asynchronous callback run for each roster member. It never rejects: its \<^verbatim>\<open>catch\<close>
  logs the error to the console and returns \<^verbatim>\<open>null\<close> (here \<open>None\<close>), whatever was thrown,
  also the error it throws itself when \<^verbatim>\<open>!scoreData.variables\<close> holds. The entry is the
  spread of the user, then of the score data (whose keys win), then \<^verbatim>\<open>final_score\<close>. Each
  member's call of \<^verbatim>\<open>calculateScore\<close> makes its own six random draws, so the draws are
  indexed by the member's id.
\<close>

definition processUser ::
  "string \<Rightarrow> network \<Rightarrow> (string \<Rightarrow> random_draws) \<Rightarrow> User
     \<Rightarrow> FullUserPerformance option promise" where
  "processUser API_BASE net random user =
     (case calculateScore API_BASE net (random (user_id user)) (user_id user) of
        Pending \<Rightarrow> Pending
      | Rejected e \<Rightarrow> Resolved None
      | Resolved scoreData \<Rightarrow>
          if \<not> truthy (variables scoreData) then Resolved None
          else
            Resolved (Some
              \<lparr>user_id = (case id_key scoreData of None \<Rightarrow> user_id user | Some v \<Rightarrow> v),
               name = (case name_key scoreData of None \<Rightarrow> name user | Some v \<Rightarrow> v),
               role = (case role_key scoreData of None \<Rightarrow> role user | Some v \<Rightarrow> v),
               avatarUrl =
                 (case avatarUrl_key scoreData of None \<Rightarrow> avatarUrl user | Some v \<Rightarrow> Some v),
               perf_analysis_summary = analysis_summary scoreData,
               perf_variables = variables scoreData,
               perf_final_score = js_score calculatedScore_loadData (variables scoreData),
               perf_advanced = Some (advanced scoreData),
               perf_other_keys = other_keys scoreData\<rparr>))"

text \<open>
  \<^verbatim>\<open>Promise.all\<close>: resolved with all the values, in the order of the promises, once every
  promise is resolved; rejected when one is; pending otherwise.
\<close>

fun promise_all :: "'a promise list \<Rightarrow> 'a list promise" where
  "promise_all [] = Resolved []"
| "promise_all (p # ps) =
     (case p of
        Rejected e \<Rightarrow> Rejected e
      | Pending \<Rightarrow> (case promise_all ps of Rejected e \<Rightarrow> Rejected e | _ \<Rightarrow> Pending)
      | Resolved x \<Rightarrow>
          (case promise_all ps of
             Rejected e \<Rightarrow> Rejected e
           | Pending \<Rightarrow> Pending
           | Resolved xs \<Rightarrow> Resolved (x # xs)))"

text \<open>
  \<^verbatim>\<open>loadData\<close>, from the state before the call, the URL typed in the settings, the network
  and the random draws, to the last state the component reaches. While a request has not
  settled the awaited \<^verbatim>\<open>Promise.all\<close> is pending: the state then keeps \<^verbatim>\<open>loading\<close> true, with
  the roster already set and the earlier results still in place; the code sets no timeout.
  Once all have settled, the results are the non-null outcomes in roster order.
\<close>

definition loadData ::
  "AppState \<Rightarrow> string \<Rightarrow> network \<Rightarrow> (string \<Rightarrow> random_draws) \<Rightarrow> AppState" where
  "loadData st apiUrl net random =
     (let API_BASE = setApiBaseUrl apiUrl;
          st1 = st\<lparr>loading := True, error := None\<rparr>
      in
      case fetchUsers of
        Inl e \<Rightarrow> st1\<lparr>error := Some (err_message e), loading := False\<rparr>
      | Inr usersList \<Rightarrow>
          (let st2 = st1\<lparr>users := usersList\<rparr> in
           case promise_all (map (processUser API_BASE net random) usersList) of
             Pending \<Rightarrow> st2
           | Rejected e \<Rightarrow> st2\<lparr>error := Some (err_message e), loading := False\<rparr>
           | Resolved outcomes \<Rightarrow>
               (let results = map the (filter (\<lambda>p. p \<noteq> None) outcomes) in
                st2\<lparr>performances := results,
                    error :=
                      (if results = [] \<and> usersList \<noteq> [] then
                         Some ''Connected to User API, but failed to calculate scores. Check backend logs.''
                       else None),
                    loading := False\<rparr>)))"

section \<open>What the network serves to a member\<close>

text \<open>
  The outcomes of a member's request, read off the network alone. The request never
  settles when the fetch, or the reading of the body, never does.
\<close>

definition neverSettles :: "network \<Rightarrow> string \<Rightarrow> bool" where
  "neverSettles net url =
     (case net url of
        FetchPending \<Rightarrow> True
      | FetchRejected e \<Rightarrow> False
      | Responded response \<Rightarrow> body response = BodyPending)"

text \<open>The JSON object delivered with a status in the 200 range, if there is one.\<close>

definition served :: "network \<Rightarrow> string \<Rightarrow> ScoreResponse option" where
  "served net url =
     (case net url of
        FetchPending \<Rightarrow> None
      | FetchRejected e \<Rightarrow> None
      | Responded response \<Rightarrow>
          if ok response then
            (case body response of
               Body bodyText (Json data) \<Rightarrow> Some data
             | _ \<Rightarrow> None)
          else None)"

text \<open>A member can be scored when an object is served whose \<^verbatim>\<open>variables\<close> is truthy.\<close>

definition memberScored :: "network \<Rightarrow> string \<Rightarrow> bool" where
  "memberScored net url =
     (case served net url of None \<Rightarrow> False | Some data \<Rightarrow> truthy (variables data))"

text \<open>The id of a member's entry: the \<^verbatim>\<open>id\<close> key of the served object, else the roster id.\<close>

definition entryId :: "network \<Rightarrow> string \<Rightarrow> string \<Rightarrow> string" where
  "entryId net url userId =
     (case served net url of
        None \<Rightarrow> userId
      | Some data \<Rightarrow> (case id_key data of None \<Rightarrow> userId | Some v \<Rightarrow> v))"

text \<open>The raw score of a served \<^verbatim>\<open>variables\<close> value, and a member's served score and further keys.\<close>

definition rawScore :: "variables_json \<Rightarrow> js_number" where
  "rawScore vars =
     (case vars of
        VarsObject v \<Rightarrow>
          Num (base_points v * difficulty_factor v + peer_kudos_count v * 1.5
                 - blocker_penalty_total v)
      | _ \<Rightarrow> NaN)"

definition servedScore :: "network \<Rightarrow> string \<Rightarrow> js_number" where
  "servedScore net url =
     (case served net url of None \<Rightarrow> NaN | Some data \<Rightarrow> rawScore (variables data))"

definition servedKeys :: "network \<Rightarrow> string \<Rightarrow> (string \<times> string) list" where
  "servedKeys net url = (case served net url of None \<Rightarrow> [] | Some data \<Rightarrow> other_keys data)"

text \<open>The outcome of the callback for a member, \<open>None\<close> also while it has not settled.\<close>

definition entryFor ::
  "string \<Rightarrow> network \<Rightarrow> (string \<Rightarrow> random_draws) \<Rightarrow> User \<Rightarrow> FullUserPerformance option" where
  "entryFor API_BASE net random user =
     (case processUser API_BASE net random user of
        Resolved outcome \<Rightarrow> outcome
      | _ \<Rightarrow> None)"

text \<open>The list \<^verbatim>\<open>fetchUsers\<close> resolves to.\<close>

definition roster :: "User list" where
  "roster = (case fetchUsers of Inl e \<Rightarrow> [] | Inr usersList \<Rightarrow> usersList)"

text \<open>The message \<^verbatim>\<open>loadData\<close> sets when no member could be scored.\<close>

definition noScoresMessage :: string where
  "noScoresMessage =
     ''Connected to User API, but failed to calculate scores. Check backend logs.''"

section \<open>Concrete inputs\<close>

text \<open>The variables of the worked scenario: 100 base points at difficulty 1.2, 10 kudos, penalty 5.\<close>

definition scenario_variables :: Variables where
  "scenario_variables =
     \<lparr>base_points = 100, difficulty_factor = 1.2, peer_kudos_count = 10,
      blocker_penalty_total = 5\<rparr>"

definition scenario_response :: ScoreResponse where
  "scenario_response =
     \<lparr>analysis_summary =
        Some \<lparr>difficulty_rationale = ''complex refactoring'', kudos_evidence = [],
              penalty_evidence = []\<rparr>,
      variables = VarsObject scenario_variables,
      final_score = None,
      id_key = None, name_key = None, role_key = None, avatarUrl_key = None,
      other_keys = []\<rparr>"

definition ok_response :: Response where
  "ok_response = \<lparr>status = 200, body = Body [] (Json scenario_response)\<rparr>"

definition server_error :: Response where
  "server_error = \<lparr>status = 500, body = Body ''Internal Server Error'' InvalidJson\<rparr>"

text \<open>
  Two further bodies: one whose \<^verbatim>\<open>variables\<close> is \<^verbatim>\<open>0\<close>, and one that names itself
  \<^verbatim>\<open>bob-backend\<close> and carries a further key.
\<close>

definition falsy_response :: Response where
  "falsy_response =
     \<lparr>status = 200, body = Body [] (Json (scenario_response\<lparr>variables := VarsFalsy\<rparr>))\<rparr>"

definition renamed_response :: Response where
  "renamed_response =
     \<lparr>status = 200,
      body = Body [] (Json (scenario_response
               \<lparr>id_key := Some ''bob-backend'', other_keys := [(''note'', ''1'')]\<rparr>))\<rparr>"

text \<open>
  A server that answers every member; one that fails for Bob; one that answers two members
  only; one with a different outcome for each member; one that cannot be reached; one that
  leaves Charlie's request open for ever.
\<close>

definition net_all_up :: network where
  "net_all_up url = Responded ok_response"

definition net_bob_down :: network where
  "net_bob_down url =
     (if url = ''http://localhost:8000/calculate-score/bob-backend'' then Responded server_error
      else Responded ok_response)"


definition net_mixed :: network where
  "net_mixed url =
     (if url = ''http://localhost:8000/calculate-score/alice-dev'' then Responded ok_response
      else if url = ''http://localhost:8000/calculate-score/bob-backend'' then
        Responded server_error
      else if url = ''http://localhost:8000/calculate-score/charlie-frontend'' then
        Responded falsy_response
      else if url = ''http://localhost:8000/calculate-score/diana-ml'' then
        Responded renamed_response
      else FetchRejected (JsError ''TypeError'' ''Failed to fetch''))"


definition net_charlie_open :: network where
  "net_charlie_open url =
     (if url = ''http://localhost:8000/calculate-score/charlie-frontend'' then FetchPending
      else Responded ok_response)"

text \<open>Two possible runs of the random generator: every draw 0, every draw one half.\<close>

definition random_zero :: random_draws where
  "random_zero i = 0"

definition random_half :: random_draws where
  "random_half i = 1 / 2"

definition random_all_zero :: "string \<Rightarrow> random_draws" where
  "random_all_zero userId = random_zero"

text \<open>The state of the component before the first load (the \<^verbatim>\<open>useState\<close> defaults).\<close>

definition initialState :: AppState where
  "initialState = \<lparr>users = [], performances = [], loading = True, error = None\<rparr>"

text \<open>
  A team of ten whose first member holds 70 of the team's 100 units of base work
  (no kudos, no penalties).
\<close>

definition member_work :: "real \<Rightarrow> Variables" where
  "member_work w =
     \<lparr>base_points = w, difficulty_factor = 1, peer_kudos_count = 0, blocker_penalty_total = 0\<rparr>"

definition team_of_ten :: "Variables list" where
  "team_of_ten =
     [member_work 70, member_work 6, member_work 3, member_work 3, member_work 3,
      member_work 3, member_work 3, member_work 3, member_work 3, member_work 3]"

section \<open>Basic facts\<close>

lemma calculatedScore_loadData_eq: "calculatedScore_loadData v = calculatedScore v"
  by (simp add: calculatedScore_loadData_def calculatedScore_def)

lemma mapM_toUser_roster:
  "mapM toUser PROVIDED_USER_IDS =
     Inr [\<lparr>user_id = ''alice-dev'', name = ''Alice'', role = ''DEV'', avatarUrl = None\<rparr>,
          \<lparr>user_id = ''bob-backend'', name = ''Bob'', role = ''BACKEND'', avatarUrl = None\<rparr>,
          \<lparr>user_id = ''charlie-frontend'', name = ''Charlie'', role = ''FRONTEND'',
            avatarUrl = None\<rparr>,
          \<lparr>user_id = ''diana-ml'', name = ''Diana'', role = ''ML'', avatarUrl = None\<rparr>,
          \<lparr>user_id = ''ethan-arch'', name = ''Ethan'', role = ''ARCH'', avatarUrl = None\<rparr>]"
  by (simp add: PROVIDED_USER_IDS_def toUser_def toUpperCase_def toUpperCase_char_def
        charAt0_def slice1_def)

lemma toUser_without_role:
  "toUser ''solo'' =
     Inr \<lparr>user_id = ''solo'', name = ''Solo'', role = ''MEMBER'', avatarUrl = None\<rparr>"
  by (simp add: toUser_def toUpperCase_def toUpperCase_char_def charAt0_def slice1_def)

subsection \<open>One member's request\<close>

lemma js_score_rawScore:
  "js_score calculatedScore_loadData vars = rawScore vars"
  by (cases vars) (simp_all add: rawScore_def calculatedScore_loadData_def)

lemma calculateScore_try_Pending_iff:
  "calculateScore_try b n rd i = Pending \<longleftrightarrow> neverSettles n (scoreUrl b i)"
  by (auto simp: calculateScore_try_def neverSettles_def
        split: fetch_outcome.splits body_outcome.splits response_json.splits
               variables_json.splits if_splits)

lemma calculateScore_Pending_iff:
  "calculateScore b n rd i = Pending \<longleftrightarrow> neverSettles n (scoreUrl b i)"
  using calculateScore_try_Pending_iff[of b n rd i]
  by (cases "calculateScore_try b n rd i") (auto simp: calculateScore_def)

lemma calculateScore_try_Resolved_iff:
  "calculateScore_try b n rd i = Resolved x \<longleftrightarrow>
     (\<exists>d. served n (scoreUrl b i) = Some d \<and> variables d \<noteq> VarsNullish \<and>
        x = \<lparr>analysis_summary = analysis_summary d, variables = variables d,
             final_score = final_score d, id_key = id_key d, name_key = name_key d,
             role_key = role_key d, avatarUrl_key = avatarUrl_key d,
             other_keys = other_keys d,
             advanced = generateAdvancedMetrics rd i (js_score calculatedScore (variables d))\<rparr>)"
  by (auto simp: calculateScore_try_def served_def
        split: fetch_outcome.splits body_outcome.splits response_json.splits
               variables_json.splits if_splits)

lemma calculateScore_Resolved_iff:
  "calculateScore b n rd i = Resolved x \<longleftrightarrow>
     (\<exists>d. served n (scoreUrl b i) = Some d \<and> variables d \<noteq> VarsNullish \<and>
        x = \<lparr>analysis_summary = analysis_summary d, variables = variables d,
             final_score = final_score d, id_key = id_key d, name_key = name_key d,
             role_key = role_key d, avatarUrl_key = avatarUrl_key d,
             other_keys = other_keys d,
             advanced = generateAdvancedMetrics rd i (js_score calculatedScore (variables d))\<rparr>)"
  by (simp add: calculateScore_def calculateScore_try_Resolved_iff[symmetric]
        split: promise.splits)

lemma processUser_not_Rejected: "processUser b n r u \<noteq> Rejected e"
  by (simp add: processUser_def split: promise.splits)

lemma processUser_Pending_iff:
  "processUser b n r u = Pending \<longleftrightarrow> neverSettles n (scoreUrl b (user_id u))"
  using calculateScore_Pending_iff[of b n "r (user_id u)" "user_id u"]
  by (cases "calculateScore b n (r (user_id u)) (user_id u)") (auto simp: processUser_def)

lemma truthy_not_nullish: "truthy vars \<Longrightarrow> vars \<noteq> VarsNullish"
  by (cases vars) simp_all

lemma entryFor_None_iff:
  "entryFor b n r u = None \<longleftrightarrow> \<not> memberScored n (scoreUrl b (user_id u))"
proof (cases "calculateScore b n (r (user_id u)) (user_id u)")
  case Pending
  then have "neverSettles n (scoreUrl b (user_id u))"
    by (simp add: calculateScore_Pending_iff)
  then have "served n (scoreUrl b (user_id u)) = None"
    by (auto simp: neverSettles_def served_def split: fetch_outcome.splits)
  with Pending show ?thesis
    by (simp add: entryFor_def processUser_def memberScored_def)
next
  case (Rejected e)
  have "\<not> memberScored n (scoreUrl b (user_id u))"
  proof
    assume "memberScored n (scoreUrl b (user_id u))"
    then obtain d where d: "served n (scoreUrl b (user_id u)) = Some d" "truthy (variables d)"
      by (auto simp: memberScored_def split: option.splits)
    then have "\<exists>x. calculateScore b n (r (user_id u)) (user_id u) = Resolved x"
      by (simp add: calculateScore_Resolved_iff truthy_not_nullish)
    with Rejected show False by simp
  qed
  with Rejected show ?thesis by (simp add: entryFor_def processUser_def)
next
  case (Resolved x)
  then obtain d where d: "served n (scoreUrl b (user_id u)) = Some d"
      "variables x = variables d"
    by (auto simp: calculateScore_Resolved_iff)
  with Resolved show ?thesis
    by (simp add: entryFor_def processUser_def memberScored_def)
qed

lemma entryFor_Some:
  assumes "entryFor b n r u = Some p"
  shows "user_id p = entryId n (scoreUrl b (user_id u)) (user_id u)"
    and "perf_final_score p = servedScore n (scoreUrl b (user_id u))"
    and "perf_other_keys p = servedKeys n (scoreUrl b (user_id u))"
proof -
  from assms obtain x where x: "calculateScore b n (r (user_id u)) (user_id u) = Resolved x"
    and t: "truthy (variables x)"
    and p: "p = \<lparr>user_id = (case id_key x of None \<Rightarrow> user_id u | Some v \<Rightarrow> v),
               name = (case name_key x of None \<Rightarrow> name u | Some v \<Rightarrow> v),
               role = (case role_key x of None \<Rightarrow> role u | Some v \<Rightarrow> v),
               avatarUrl = (case avatarUrl_key x of None \<Rightarrow> avatarUrl u | Some v \<Rightarrow> Some v),
               perf_analysis_summary = analysis_summary x,
               perf_variables = variables x,
               perf_final_score = js_score calculatedScore_loadData (variables x),
               perf_advanced = Some (advanced x),
               perf_other_keys = other_keys x\<rparr>"
    by (auto simp: entryFor_def processUser_def split: promise.splits if_splits)
  from x obtain d where d: "served n (scoreUrl b (user_id u)) = Some d"
      "variables x = variables d" "id_key x = id_key d" "other_keys x = other_keys d"
    by (auto simp: calculateScore_Resolved_iff)
  from p d show "user_id p = entryId n (scoreUrl b (user_id u)) (user_id u)"
    by (simp add: entryId_def)
  from p d show "perf_final_score p = servedScore n (scoreUrl b (user_id u))"
    by (simp add: servedScore_def js_score_rawScore)
  from p d show "perf_other_keys p = servedKeys n (scoreUrl b (user_id u))"
    by (simp add: servedKeys_def)
qed

lemma promise_all_settled:
  "\<forall>u \<in> set us. \<not> neverSettles n (scoreUrl b (user_id u)) \<Longrightarrow>
     promise_all (map (processUser b n r) us) = Resolved (map (entryFor b n r) us)"
proof (induction us)
  case Nil
  show ?case by simp
next
  case (Cons u us)
  then have "processUser b n r u \<noteq> Pending"
    by (simp add: processUser_Pending_iff)
  with processUser_not_Rejected[of b n r u]
  obtain y where y: "processUser b n r u = Resolved y"
    by (cases "processUser b n r u") auto
  with Cons show ?case by (simp add: entryFor_def)
qed

lemma promise_all_not_Rejected:
  "promise_all (map (processUser b n r) us) \<noteq> Rejected e"
  by (induction us) (auto simp: processUser_not_Rejected split: promise.splits)

lemma promise_all_open:
  "\<exists>u \<in> set us. neverSettles n (scoreUrl b (user_id u)) \<Longrightarrow>
     promise_all (map (processUser b n r) us) = Pending"
proof (induction us)
  case Nil
  then show ?case by simp
next
  case (Cons u us)
  show ?case
  proof (cases "neverSettles n (scoreUrl b (user_id u))")
    case True
    then have "processUser b n r u = Pending" by (simp add: processUser_Pending_iff)
    then show ?thesis
      using promise_all_not_Rejected[of b n r us] by (simp split: promise.splits)
  next
    case False
    with Cons have "promise_all (map (processUser b n r) us) = Pending" by simp
    then show ?thesis
      using processUser_not_Rejected[of b n r u] by (simp split: promise.splits)
  qed
qed

subsection \<open>The batch run\<close>

lemma fetchUsers_roster: "fetchUsers = Inr roster"
  by (simp add: roster_def fetchUsers_def mapM_toUser_roster)

lemma roster_ids: "map user_id roster = PROVIDED_USER_IDS"
proof -
  have "map user_id roster =
      [''alice-dev'', ''bob-backend'', ''charlie-frontend'', ''diana-ml'', ''ethan-arch'']"
    by (simp add: roster_def fetchUsers_def mapM_toUser_roster)
  then show ?thesis by (simp add: PROVIDED_USER_IDS_def)
qed

lemma roster_not_Nil: "roster \<noteq> []"
  using roster_ids by (auto simp: PROVIDED_USER_IDS_def)

lemma roster_settled:
  "(\<forall>u \<in> set roster. \<not> neverSettles n (scoreUrl b (user_id u))) \<longleftrightarrow>
   (\<forall>i \<in> set PROVIDED_USER_IDS. \<not> neverSettles n (scoreUrl b i))"
  by (simp add: roster_ids[symmetric])

lemma loadData_users: "users (loadData st a n r) = roster"
  using promise_all_not_Rejected[of "setApiBaseUrl a" n r roster]
  by (simp add: loadData_def fetchUsers_roster Let_def split: promise.splits)

lemma loadData_settled:
  assumes "\<forall>i \<in> set PROVIDED_USER_IDS. \<not> neverSettles n (scoreUrl (setApiBaseUrl a) i)"
  shows "performances (loadData st a n r) =
           map the (filter (\<lambda>p. p \<noteq> None) (map (entryFor (setApiBaseUrl a) n r) roster))"
    and "error (loadData st a n r) =
           (if performances (loadData st a n r) = [] then Some noScoresMessage else None)"
    and "\<not> loading (loadData st a n r)"
proof -
  from assms have "\<forall>u \<in> set roster. \<not> neverSettles n (scoreUrl (setApiBaseUrl a) (user_id u))"
    by (simp add: roster_settled)
  then have pa: "promise_all (map (processUser (setApiBaseUrl a) n r) roster) =
      Resolved (map (entryFor (setApiBaseUrl a) n r) roster)"
    by (rule promise_all_settled)
  show "performances (loadData st a n r) =
           map the (filter (\<lambda>p. p \<noteq> None) (map (entryFor (setApiBaseUrl a) n r) roster))"
    by (simp add: loadData_def fetchUsers_roster Let_def pa)
  show "error (loadData st a n r) =
           (if performances (loadData st a n r) = [] then Some noScoresMessage else None)"
    by (simp add: loadData_def fetchUsers_roster Let_def pa roster_not_Nil noScoresMessage_def)
  show "\<not> loading (loadData st a n r)"
    by (simp add: loadData_def fetchUsers_roster Let_def pa)
qed

lemma loadData_open:
  assumes "\<exists>i \<in> set PROVIDED_USER_IDS. neverSettles n (scoreUrl (setApiBaseUrl a) i)"
  shows "performances (loadData st a n r) = performances st"
    and "error (loadData st a n r) = None"
    and "loading (loadData st a n r)"
proof -
  from assms have "\<exists>u \<in> set roster. neverSettles n (scoreUrl (setApiBaseUrl a) (user_id u))"
    using roster_settled[of n "setApiBaseUrl a"] by blast
  then have pa: "promise_all (map (processUser (setApiBaseUrl a) n r) roster) = Pending"
    by (rule promise_all_open)
  show "performances (loadData st a n r) = performances st"
    by (simp add: loadData_def fetchUsers_roster Let_def pa)
  show "error (loadData st a n r) = None"
    by (simp add: loadData_def fetchUsers_roster Let_def pa)
  show "loading (loadData st a n r)"
    by (simp add: loadData_def fetchUsers_roster Let_def pa)
qed

lemma entries_ids:
  "map user_id (map the (filter (\<lambda>p. p \<noteq> None) (map (entryFor b n r) us))) =
     map (\<lambda>i. entryId n (scoreUrl b i) i)
       (filter (\<lambda>i. memberScored n (scoreUrl b i)) (map user_id us))"
proof (induction us)
  case Nil
  show ?case by simp
next
  case (Cons u us)
  show ?case
  proof (cases "entryFor b n r u")
    case None
    then have "\<not> memberScored n (scoreUrl b (user_id u))" by (simp add: entryFor_None_iff)
    with None Cons show ?thesis by simp
  next
    case (Some p)
    then have "memberScored n (scoreUrl b (user_id u))"
      using entryFor_None_iff[of b n r u] by simp
    with Some Cons entryFor_Some(1)[OF Some] show ?thesis by simp
  qed
qed



lemma loadData_settled_ids:
  assumes "\<forall>i \<in> set PROVIDED_USER_IDS. \<not> neverSettles n (scoreUrl (setApiBaseUrl a) i)"
  shows "map user_id (performances (loadData st a n r)) =
     map (\<lambda>i. entryId n (scoreUrl (setApiBaseUrl a) i) i)
       (filter (\<lambda>i. memberScored n (scoreUrl (setApiBaseUrl a) i)) PROVIDED_USER_IDS)"
  by (simp only: loadData_settled(1)[OF assms] entries_ids roster_ids)




lemma loadData_loading_iff:
  "loading (loadData st a n r) \<longleftrightarrow>
     (\<exists>i \<in> set PROVIDED_USER_IDS. neverSettles n (scoreUrl (setApiBaseUrl a) i))"
  using loadData_open(3)[of n a st r] loadData_settled(3)[of n a st r] by blast

subsection \<open>The concrete networks\<close>

lemma setApiBaseUrl_localhost:
  "setApiBaseUrl ''http://localhost:8000'' = ''http://localhost:8000''"
  "setApiBaseUrl ''http://localhost:8000/'' = ''http://localhost:8000''"
  by (simp_all add: setApiBaseUrl_def)

lemma ok_responses:
  "ok ok_response" "\<not> ok server_error" "ok falsy_response" "ok renamed_response"
  by (simp_all add: ok_def ok_response_def server_error_def falsy_response_def
        renamed_response_def)


lemma net_all_up_facts:
  "\<not> neverSettles net_all_up url"
  "memberScored net_all_up url"
  "entryId net_all_up url i = i"
  by (simp_all add: neverSettles_def memberScored_def entryId_def served_def net_all_up_def
        ok_responses, simp_all add: ok_response_def scenario_response_def)

lemma net_bob_down_facts:
  "\<not> neverSettles net_bob_down url"
  "memberScored net_bob_down (scoreUrl ''http://localhost:8000'' i) \<longleftrightarrow> i \<noteq> ''bob-backend''"
  "entryId net_bob_down url i = i"
  by (simp_all add: neverSettles_def memberScored_def entryId_def served_def net_bob_down_def
        ok_responses scoreUrl_def,
      simp_all add: ok_response_def scenario_response_def server_error_def)


lemma net_mixed_facts:
  "\<not> neverSettles net_mixed url"
  "memberScored net_mixed (scoreUrl ''http://localhost:8000'' i) \<longleftrightarrow>
     i = ''alice-dev'' \<or> i = ''diana-ml''"
  "entryId net_mixed (scoreUrl ''http://localhost:8000'' ''alice-dev'') ''alice-dev'' = ''alice-dev''"
  "entryId net_mixed (scoreUrl ''http://localhost:8000'' ''diana-ml'') ''diana-ml'' = ''bob-backend''"
  by (simp_all add: neverSettles_def memberScored_def entryId_def served_def
        net_mixed_def ok_responses scoreUrl_def,
      simp_all add: ok_response_def scenario_response_def server_error_def falsy_response_def
        renamed_response_def)


lemma net_charlie_open_facts:
  "neverSettles net_charlie_open (scoreUrl ''http://localhost:8000'' ''charlie-frontend'')"
  by (simp add: neverSettles_def net_charlie_open_def scoreUrl_def)

lemma charlie_in_ids: "''charlie-frontend'' \<in> set PROVIDED_USER_IDS"
  by (simp add: PROVIDED_USER_IDS_def)

section \<open>The claims\<close>

text \<open>
  C1 (amended). For base_points = 100, difficulty_factor = 1.2, peer_kudos_count = 10 and
  blocker_penalty_total = 5, the score computed in \<^verbatim>\<open>calculateScore\<close>, and recomputed by the
  same expression in \<^verbatim>\<open>loadData\<close>, is 100 * 1.2 + 10 * 1.5 - 5 = 130: the code has no
  tunable coefficients and always adds 1.5 points per kudos.
\<close>

theorem scenario_score_is_130:
  "calculatedScore scenario_variables = 130 \<and>
   calculatedScore_loadData scenario_variables = 130 \<and>
   calculatedScore scenario_variables = 100 * 1.2 + 10 * 1.5 - 5"
  by (simp add: calculatedScore_def calculatedScore_loadData_def scenario_variables_def)

text \<open>C1 as stated fails: on the scenario input neither computation gives 115.\<close>

theorem scenario_score_not_115:
  "calculatedScore scenario_variables \<noteq> 115 \<and>
   calculatedScore_loadData scenario_variables \<noteq> 115"
  by (simp add: calculatedScore_def calculatedScore_loadData_def scenario_variables_def)




text \<open>
  C3 (the code departs from the claim). Two runs of \<^verbatim>\<open>calculateScore\<close> for the same user
  against the same server response differ when \<^verbatim>\<open>Math.random\<close> draws differently: with
  every draw 0 the score history of the scenario user starts at 110, with every draw one
  half it starts at 130.
\<close>

theorem calculateScore_history_depends_on_random:
  "calculateScore ''http://localhost:8000'' net_all_up random_zero ''alice-dev'' \<noteq>
     calculateScore ''http://localhost:8000'' net_all_up random_half ''alice-dev'' \<and>
   map score (generateHistory random_zero (Num (calculatedScore scenario_variables))) =
     [Num 110, Num 112, Num 114, Num 116, Num 118, Num 120] \<and>
   map score (generateHistory random_half (Num (calculatedScore scenario_variables))) =
     [Num 130, Num 132, Num 134, Num 136, Num 138, Num 140]"
  by (simp add: calculateScore_def calculateScore_try_def net_all_up_def ok_response_def ok_def
        scenario_response_def scenario_variables_def calculatedScore_def
        generateAdvancedMetrics_def Let_def generateHistory_def months_def historyPoint_def
        random_zero_def random_half_def enumerate_eq_zip)

text \<open>
  C4 (amended). \<^verbatim>\<open>loadData\<close> always sets the roster of five users. It completes (loading
  becomes false) exactly when every member's request settles; while one never settles,
  loading stays true and the earlier result set stays in place. Once all requests have
  settled, the result set holds, in roster order, one entry for each member that was
  served a JSON object with a truthy \<^verbatim>\<open>variables\<close> under a status in the 200 range, and
  no entry for any other member: a member whose computation fails is left out (no entry
  marked incomplete exists), the other members' results are still produced, and the number
  of entries is the roster size minus the number of failures. An entry carries the \<^verbatim>\<open>id\<close>
  key of the served object when it has one, and the member's id otherwise.
\<close>

theorem loadData_entries_are_scored_members:
  "map user_id (users (loadData st a n r)) = PROVIDED_USER_IDS \<and>
   (loading (loadData st a n r) \<longleftrightarrow>
      (\<exists>i \<in> set PROVIDED_USER_IDS. neverSettles n (scoreUrl (setApiBaseUrl a) i))) \<and>
   ((\<forall>i \<in> set PROVIDED_USER_IDS. \<not> neverSettles n (scoreUrl (setApiBaseUrl a) i)) \<longrightarrow>
      map user_id (performances (loadData st a n r)) =
        map (\<lambda>i. entryId n (scoreUrl (setApiBaseUrl a) i) i)
          (filter (\<lambda>i. memberScored n (scoreUrl (setApiBaseUrl a) i)) PROVIDED_USER_IDS) \<and>
      length (performances (loadData st a n r)) =
        length PROVIDED_USER_IDS
          - length (filter (\<lambda>i. \<not> memberScored n (scoreUrl (setApiBaseUrl a) i))
              PROVIDED_USER_IDS)) \<and>
   ((\<exists>i \<in> set PROVIDED_USER_IDS. neverSettles n (scoreUrl (setApiBaseUrl a) i)) \<longrightarrow>
      performances (loadData st a n r) = performances st)"
proof -
  let ?S = "loadData st a n r"
  let ?sc = "\<lambda>i. memberScored n (scoreUrl (setApiBaseUrl a) i)"
  have users: "map user_id (users ?S) = PROVIDED_USER_IDS"
    by (simp add: loadData_users roster_ids)
  have settled: "map user_id (performances ?S) =
        map (\<lambda>i. entryId n (scoreUrl (setApiBaseUrl a) i) i) (filter ?sc PROVIDED_USER_IDS) \<and>
      length (performances ?S) =
        length PROVIDED_USER_IDS - length (filter (\<lambda>i. \<not> ?sc i) PROVIDED_USER_IDS)"
    if s: "\<forall>i \<in> set PROVIDED_USER_IDS. \<not> neverSettles n (scoreUrl (setApiBaseUrl a) i)"
  proof -
    have ids: "map user_id (performances ?S) =
        map (\<lambda>i. entryId n (scoreUrl (setApiBaseUrl a) i) i) (filter ?sc PROVIDED_USER_IDS)"
      by (rule loadData_settled_ids[OF s])
    have "length (performances ?S) = length (filter ?sc PROVIDED_USER_IDS)"
      using arg_cong[OF ids, of length] by simp
    moreover have "length (filter ?sc PROVIDED_USER_IDS)
        + length (filter (\<lambda>i. \<not> ?sc i) PROVIDED_USER_IDS) = length PROVIDED_USER_IDS"
      by (rule sum_length_filter_compl)
    ultimately show ?thesis using ids by simp
  qed
  show ?thesis
    using users settled loadData_loading_iff[of st a n r] loadData_open(1)[of n a st r]
    by blast
qed

text \<open>
  Two runs. In the first, Alice is served, Bob's request fails with status 500, Charlie is
  served \<^verbatim>\<open>variables: 0\<close>, Diana is served an object that names itself \<^verbatim>\<open>bob-backend\<close>, and
  Ethan's server cannot be reached: two entries result. In the second, Charlie's request
  never settles: the run stays loading, with the initial, empty result set.
\<close>

theorem loadData_entries_are_scored_members_witness:
  "\<not> (\<exists>i \<in> set PROVIDED_USER_IDS.
        neverSettles net_mixed (scoreUrl (setApiBaseUrl ''http://localhost:8000'') i)) \<and>
   \<not> loading (loadData initialState ''http://localhost:8000'' net_mixed random_all_zero) \<and>
   map user_id (performances
      (loadData initialState ''http://localhost:8000'' net_mixed random_all_zero)) =
     [''alice-dev'', ''bob-backend''] \<and>
   length (performances
      (loadData initialState ''http://localhost:8000'' net_mixed random_all_zero)) = 2 \<and>
   (\<exists>i \<in> set PROVIDED_USER_IDS.
        neverSettles net_charlie_open (scoreUrl (setApiBaseUrl ''http://localhost:8000'') i)) \<and>
   loading (loadData initialState ''http://localhost:8000'' net_charlie_open random_all_zero) \<and>
   performances (loadData initialState ''http://localhost:8000'' net_charlie_open random_all_zero)
     = []"
proof -
  let ?b = "setApiBaseUrl ''http://localhost:8000''"
  have s: "\<forall>i \<in> set PROVIDED_USER_IDS. \<not> neverSettles net_mixed (scoreUrl ?b i)"
    by (simp add: net_mixed_facts)
  have f: "filter (\<lambda>i. memberScored net_mixed (scoreUrl ?b i)) PROVIDED_USER_IDS =
      [''alice-dev'', ''diana-ml'']"
    by (simp add: setApiBaseUrl_localhost net_mixed_facts PROVIDED_USER_IDS_def)
  have g: "length (filter (\<lambda>i. \<not> memberScored net_mixed (scoreUrl ?b i)) PROVIDED_USER_IDS) = 3"
    by (simp add: setApiBaseUrl_localhost net_mixed_facts PROVIDED_USER_IDS_def)
  have l: "length PROVIDED_USER_IDS = 5" by (simp add: PROVIDED_USER_IDS_def)
  have e: "map (\<lambda>i. entryId net_mixed (scoreUrl ?b i) i) [''alice-dev'', ''diana-ml''] =
      [''alice-dev'', ''bob-backend'']"
    by (simp add: setApiBaseUrl_localhost net_mixed_facts)
  have o: "\<exists>i \<in> set PROVIDED_USER_IDS. neverSettles net_charlie_open (scoreUrl ?b i)"
    using net_charlie_open_facts charlie_in_ids by (auto simp: setApiBaseUrl_localhost)
  have i0: "performances initialState = []" by (simp add: initialState_def)
  note m = loadData_entries_are_scored_members [of initialState "''http://localhost:8000''" net_mixed random_all_zero]
  note op = loadData_entries_are_scored_members [of initialState "''http://localhost:8000''" net_charlie_open random_all_zero]
  from m s have m1: "\<not> loading (loadData initialState ''http://localhost:8000'' net_mixed random_all_zero)"
    by blast
  from m s have m2: "map user_id (performances
      (loadData initialState ''http://localhost:8000'' net_mixed random_all_zero)) =
        map (\<lambda>i. entryId net_mixed (scoreUrl ?b i) i)
          (filter (\<lambda>i. memberScored net_mixed (scoreUrl ?b i)) PROVIDED_USER_IDS)"
    by blast
  from m s have m3: "length (performances
      (loadData initialState ''http://localhost:8000'' net_mixed random_all_zero)) =
        length PROVIDED_USER_IDS
          - length (filter (\<lambda>i. \<not> memberScored net_mixed (scoreUrl ?b i)) PROVIDED_USER_IDS)"
    by blast
  from op o have op1: "loading (loadData initialState ''http://localhost:8000'' net_charlie_open random_all_zero)"
    by blast
  from op o have op2: "performances (loadData initialState ''http://localhost:8000'' net_charlie_open random_all_zero)
     = performances initialState"
    by blast
  have m2': "map user_id (performances
      (loadData initialState ''http://localhost:8000'' net_mixed random_all_zero)) =
     [''alice-dev'', ''bob-backend'']"
    by (simp only: m2 f e)
  have m3': "length (performances
      (loadData initialState ''http://localhost:8000'' net_mixed random_all_zero)) = 2"
    by (simp add: m3 g l)
  from s have s': "\<not> (\<exists>i \<in> set PROVIDED_USER_IDS. neverSettles net_mixed (scoreUrl ?b i))"
    by blast
  from s' m1 m2' m3' o op1 op2 i0 show ?thesis by simp
qed

text \<open>
  C4 as stated fails: when the server answers Bob's request with status 500, the roster
  has five members and the result set four entries, none of them for Bob.
\<close>

theorem loadData_drops_failed_member:
  "length (users (loadData initialState ''http://localhost:8000/'' net_bob_down random_all_zero))
     = 5 \<and>
   length (performances
      (loadData initialState ''http://localhost:8000/'' net_bob_down random_all_zero)) = 4 \<and>
   map user_id (performances
      (loadData initialState ''http://localhost:8000/'' net_bob_down random_all_zero)) =
     [''alice-dev'', ''charlie-frontend'', ''diana-ml'', ''ethan-arch'']"
proof -
  define S where
    "S = loadData initialState ''http://localhost:8000/'' net_bob_down random_all_zero"
  have s: "\<forall>i \<in> set PROVIDED_USER_IDS.
      \<not> neverSettles net_bob_down (scoreUrl (setApiBaseUrl ''http://localhost:8000/'') i)"
    by (simp add: net_bob_down_facts)
  have ids: "map user_id (performances S) =
     [''alice-dev'', ''charlie-frontend'', ''diana-ml'', ''ethan-arch'']"
    unfolding S_def
    by (simp only: loadData_settled_ids[OF s] setApiBaseUrl_localhost net_bob_down_facts)
       (simp add: PROVIDED_USER_IDS_def)
  have "length (map user_id (users S)) = 5"
    unfolding S_def by (simp only: loadData_users roster_ids) (simp add: PROVIDED_USER_IDS_def)
  then have us: "length (users S) = 5" by simp
  have "length (map user_id (performances S)) = 4"
    by (simp only: ids) simp
  then have ps: "length (performances S) = 4" by simp
  from us ps ids show ?thesis unfolding S_def by simp
qed







text \<open>
  C7 (amended). burnout_risk is a step function of the member's own locally computed
  score: 85 when the score exceeds 150, and 30 otherwise (also for a score that is not a
  number). It lies in [0, 100] and depends neither on the member's share of the team's
  work nor on a penalty trend.
\<close>

theorem burnout_risk_step_of_score:
  "burnout_risk (wellness (generateAdvancedMetrics random userId (Num baseScore))) =
     (if baseScore > 150 then 85 else 30) \<and>
   burnout_risk (wellness (generateAdvancedMetrics random userId NaN)) = 30 \<and>
   0 \<le> burnout_risk (wellness (generateAdvancedMetrics random userId anyScore)) \<and>
   burnout_risk (wellness (generateAdvancedMetrics random userId anyScore)) \<le> 100"
  by (simp add: generateAdvancedMetrics_def Let_def)

text \<open>
  C7 as stated fails: in a team of ten whose first member holds 70 percent of the team's
  base work, that member's score is 70, the burnout_risk is 30, and 30 is above neither
  the 60 percent default nor the 70 the dashboard flags.
\<close>

theorem burnout_seventy_percent_share_low:
  "length team_of_ten = 10 \<and>
   difficultyScore (team_of_ten ! 0) = 70 / 100 * sum_list (map difficultyScore team_of_ten) \<and>
   burnout_risk (wellness (generateAdvancedMetrics random_zero ''alice-dev''
      (Num (calculatedScore (team_of_ten ! 0))))) = 30 \<and>
   \<not> burnout_risk (wellness (generateAdvancedMetrics random_zero ''alice-dev''
      (Num (calculatedScore (team_of_ten ! 0))))) > 60"
  by (simp add: team_of_ten_def member_work_def difficultyScore_def calculatedScore_def
        generateAdvancedMetrics_def Let_def)

text \<open>
  C8. With zero kudos and zero penalty the computed score is the base work,
  base_points * difficulty_factor, in \<^verbatim>\<open>calculateScore\<close> and in \<^verbatim>\<open>loadData\<close> alike.
\<close>

theorem raw_score_eq_base_work:
  "peer_kudos_count v = 0 \<Longrightarrow> blocker_penalty_total v = 0 \<Longrightarrow>
     calculatedScore v = base_points v * difficulty_factor v \<and>
     calculatedScore_loadData v = base_points v * difficulty_factor v \<and>
     calculatedScore v = difficultyScore v"
  by (simp add: calculatedScore_def calculatedScore_loadData_def difficultyScore_def)

theorem raw_score_eq_base_work_witness:
  "peer_kudos_count (member_work 70) = 0 \<and> blocker_penalty_total (member_work 70) = 0 \<and>
   calculatedScore (member_work 70) = 70 \<and> calculatedScore_loadData (member_work 70) = 70"
proof -
  have k: "peer_kudos_count (member_work 70) = 0" by (simp add: member_work_def)
  have b: "blocker_penalty_total (member_work 70) = 0" by (simp add: member_work_def)
  have w: "base_points (member_work 70) * difficulty_factor (member_work 70) = 70"
    by (simp add: member_work_def)
  from raw_score_eq_base_work [OF k b] w k b show ?thesis by simp
qed

text \<open>
  C9. \<^verbatim>\<open>fetchUsers\<close> takes no input and reads nothing from the network: it always resolves
  to the same five users, alice-dev, bob-backend, charlie-frontend, diana-ml and ethan-arch
  in this order, each named by the capitalized first segment of the id, with the
  uppercased second segment as role and no avatar.
\<close>

theorem fetchUsers_constant_roster:
  "fetchUsers =
     Inr [\<lparr>user_id = ''alice-dev'', name = ''Alice'', role = ''DEV'', avatarUrl = None\<rparr>,
          \<lparr>user_id = ''bob-backend'', name = ''Bob'', role = ''BACKEND'', avatarUrl = None\<rparr>,
          \<lparr>user_id = ''charlie-frontend'', name = ''Charlie'', role = ''FRONTEND'',
            avatarUrl = None\<rparr>,
          \<lparr>user_id = ''diana-ml'', name = ''Diana'', role = ''ML'', avatarUrl = None\<rparr>,
          \<lparr>user_id = ''ethan-arch'', name = ''Ethan'', role = ''ARCH'', avatarUrl = None\<rparr>]"
  by (simp add: fetchUsers_def mapM_toUser_roster)

text \<open>
  C10. For every user id and score, the generated attrition_risk_prediction is High
  exactly when the score exceeds 160 and Low otherwise (also for a score that is not a
  number); Medium is never produced.
\<close>

theorem attrition_never_medium:
  "attrition_risk_prediction (generateAdvancedMetrics random userId (Num baseScore)) =
     (if baseScore > 160 then ''High'' else ''Low'') \<and>
   attrition_risk_prediction (generateAdvancedMetrics random userId NaN) = ''Low'' \<and>
   attrition_risk_prediction (generateAdvancedMetrics random userId anyScore) \<noteq> ''Medium''"
  by (simp add: generateAdvancedMetrics_def Let_def)

end
